theory Spec2Isabelle
  imports Main "HOL-Library.Sublist"
begin

section \<open>JavaScript values as the converters see them\<close>

text \<open>
  Both converters take \<^verbatim>\<open>dbProperty: any\<close>, so the raw record is an untyped object.
  An object is an association list from field names to values; reading a field that is
  not there gives \<^verbatim>\<open>undefined\<close>. Numbers are the integers (prices and room counts are
  whole numbers; \<^verbatim>\<open>NaN\<close> and fractions are not modelled).
\<close>

datatype jsval =
    JUndefined
  | JNull
  | JBool bool
  | JNum int
  | JStr string
  | JArr "jsval list"
  | JObj "(string \<times> jsval) list"

type_synonym jsobject = "(string \<times> jsval) list"

text \<open>Truthiness, as \<^verbatim>\<open>||\<close>, \<^verbatim>\<open>?:\<close> and \<^verbatim>\<open>if\<close> test it: an array or an object is
  always truthy, also the empty array.\<close>

fun truthy :: "jsval \<Rightarrow> bool" where
  "truthy JUndefined = False"
| "truthy JNull = False"
| "truthy (JBool b) = b"
| "truthy (JNum n) = (n \<noteq> 0)"
| "truthy (JStr s) = (s \<noteq> [])"
| "truthy (JArr xs) = True"
| "truthy (JObj fs) = True"

text \<open>\<^verbatim>\<open>a || b\<close>\<close>

definition js_or :: "jsval \<Rightarrow> jsval \<Rightarrow> jsval" where
  "js_or a b = (if truthy a then a else b)"

text \<open>\<^verbatim>\<open>o.k\<close> on an object\<close>

definition field :: "jsobject \<Rightarrow> string \<Rightarrow> jsval" where
  "field obj k = (case map_of obj k of None \<Rightarrow> JUndefined | Some v \<Rightarrow> v)"

section \<open>Normalization Layer\<close>

definition placeholder :: string where
  "placeholder = ''https://images.pexels.com/photos/106399/pexels-photo-106399.jpeg''"

text \<open>\<^verbatim>\<open>convertDbPropertyToAppProperty\<close> of src/hooks/useProperties.ts (lines 25-48).
  It reads the price from \<^verbatim>\<open>price_monthly\<close>.\<close>

definition convertDbPropertyToAppProperty :: "jsobject \<Rightarrow> jsobject" where
  "convertDbPropertyToAppProperty dbProperty =
    [(''id'', field dbProperty ''id''),
     (''ownerId'', field dbProperty ''owner_id''),
     (''title'', field dbProperty ''title''),
     (''description'', field dbProperty ''description''),
     (''priceMonthly'', field dbProperty ''price_monthly''),
     (''location'', JObj
        [(''address'', js_or (field dbProperty ''address'') (JStr [])),
         (''city'', field dbProperty ''city''),
         (''district'', field dbProperty ''area''),
         (''neighborhood'', field dbProperty ''area'')]),
     (''bedrooms'', field dbProperty ''bedrooms''),
     (''bathrooms'', field dbProperty ''bathrooms''),
     (''propertyType'', field dbProperty ''property_type''),
     (''amenities'', js_or (field dbProperty ''amenities'') (JArr [])),
     (''images'', js_or (field dbProperty ''images'') (JArr [JStr placeholder])),
     (''status'', if truthy (field dbProperty ''is_available'')
                  then JStr ''available'' else JStr ''rented''),
     (''createdDate'', field dbProperty ''created_at''),
     (''updatedDate'', field dbProperty ''updated_at''),
     (''featured'', js_or (field dbProperty ''is_featured'') (JBool False))]"

text \<open>\<^verbatim>\<open>convertDbPropertyToAppProperty\<close> of the HomePage (src/main.tsx, lines 173-196).
  It reads the price from \<^verbatim>\<open>monthly_rent\<close>.\<close>

definition convertDbPropertyToAppProperty_HomePage :: "jsobject \<Rightarrow> jsobject" where
  "convertDbPropertyToAppProperty_HomePage dbProperty =
    [(''id'', field dbProperty ''id''),
     (''ownerId'', field dbProperty ''owner_id''),
     (''title'', field dbProperty ''title''),
     (''description'', field dbProperty ''description''),
     (''priceMonthly'', field dbProperty ''monthly_rent''),
     (''location'', JObj
        [(''address'', JStr []),
         (''city'', field dbProperty ''city''),
         (''district'', field dbProperty ''area''),
         (''neighborhood'', field dbProperty ''area'')]),
     (''bedrooms'', field dbProperty ''bedrooms''),
     (''bathrooms'', field dbProperty ''bathrooms''),
     (''propertyType'', field dbProperty ''property_type''),
     (''amenities'', js_or (field dbProperty ''amenities'') (JArr [])),
     (''images'', js_or (field dbProperty ''images'') (JArr [JStr placeholder])),
     (''status'', if truthy (field dbProperty ''is_available'')
                  then JStr ''available'' else JStr ''rented''),
     (''createdDate'', field dbProperty ''created_at''),
     (''updatedDate'', field dbProperty ''updated_at''),
     (''featured'', JBool False)]"

text \<open>The raw record of the scenario:
  \<^verbatim>\<open>{monthly_rent: 800000, is_available: true, images: null, amenities: null}\<close>\<close>

definition scenario_raw :: jsobject where
  "scenario_raw =
    [(''monthly_rent'', JNum 800000),
     (''is_available'', JBool True),
     (''images'', JNull),
     (''amenities'', JNull)]"

section \<open>Canonical Property and SearchFilters\<close>

text \<open>
  Modelled from the spec: the type declarations \<^verbatim>\<open>Property\<close> and \<^verbatim>\<open>SearchFilters\<close>
  (\<^verbatim>\<open>src/types\<close>) are not among the sources. The Property record has the fields of the
  spec's data model, which are the fields of every entry of \<^verbatim>\<open>mockProperties\<close> and of
  the object both converters build, with \<^verbatim>\<open>views\<close> optional. The field \<^verbatim>\<open>id\<close> is
  written \<open>id'\<close>. Strings are ASCII.
\<close>

record Location =
  address :: string
  city :: string
  district :: string
  neighborhood :: string

record Property =
  id' :: string
  ownerId :: string
  title :: string
  description :: string
  priceMonthly :: int
  location :: Location
  bedrooms :: int
  bathrooms :: int
  propertyType :: string
  amenities :: "string list"
  images :: "string list"
  status :: string
  createdDate :: string
  updatedDate :: string
  featured :: bool
  views :: "int option"

text \<open>
  Modelled from the spec: a filters object has every field that the code reads from one,
  each optional (\<open>None\<close> is \<^verbatim>\<open>undefined\<close>): the hook's fallback branch reads
  \<^verbatim>\<open>location, priceMin, priceMax, propertyType, bedrooms, bathrooms\<close>, and
  \<^verbatim>\<open>db.properties.getAll\<close> reads \<^verbatim>\<open>city, priceMin, priceMax, propertyType, bedrooms,
  bathrooms, search, limit, offset\<close> of the same object. The fields carry the prefix
  \<open>f_\<close>, since a Property has fields of the same names.
\<close>

record SearchFilters =
  f_location :: "string option"
  f_city :: "string option"
  f_priceMin :: "int option"
  f_priceMax :: "int option"
  f_propertyType :: "string option"
  f_bedrooms :: "int option"
  f_bathrooms :: "int option"
  f_search :: "string option"
  f_limit :: "int option"
  f_offset :: "int option"

text \<open>The empty filters object \<^verbatim>\<open>{}\<close>, the default of \<^verbatim>\<open>useProperties\<close>.\<close>

definition no_filters :: SearchFilters where
  "no_filters =
    \<lparr>f_location = None, f_city = None, f_priceMin = None, f_priceMax = None,
     f_propertyType = None, f_bedrooms = None, f_bathrooms = None, f_search = None,
     f_limit = None, f_offset = None\<rparr>"

section \<open>Strings\<close>

text \<open>\<^verbatim>\<open>String.prototype.toLowerCase\<close> on ASCII: each of the letters A to Z becomes
  its small letter, every other character stays.\<close>

definition lower_char :: "char \<Rightarrow> char" where
  "lower_char c =
    (case map_of (zip ''ABCDEFGHIJKLMNOPQRSTUVWXYZ'' ''abcdefghijklmnopqrstuvwxyz'') c of
       Some d \<Rightarrow> d
     | None \<Rightarrow> c)"

definition toLowerCase :: "string \<Rightarrow> string" where
  "toLowerCase s = map lower_char s"

text \<open>\<^verbatim>\<open>s.includes(t)\<close>: \<open>t\<close> occurs in \<open>s\<close> as a contiguous substring.\<close>

fun js_includes :: "string \<Rightarrow> string \<Rightarrow> bool" where
  "js_includes [] t = (t = [])"
| "js_includes (c # s) t = (prefix t (c # s) \<or> js_includes s t)"

section \<open>Filter Evaluator: the fallback branch of useProperties\<close>

text \<open>
  The body of the \<^verbatim>\<open>!isSupabaseConfigured\<close> branch (src/hooks/useProperties.ts,
  lines 58-88), with the imported dataset as the argument. Each \<^verbatim>\<open>if (filters.x)\<close>
  tests truthiness: an absent field, the empty string and the number 0 skip the step.
\<close>

definition applyFilters :: "Property list \<Rightarrow> SearchFilters \<Rightarrow> Property list" where
  "applyFilters mockProperties filters =
    (let filtered = mockProperties;
         filtered =
           (case f_location filters of
              Some l \<Rightarrow>
                if l \<noteq> [] then
                  filter (\<lambda>p. js_includes (toLowerCase (city (location p))) (toLowerCase l)) filtered
                else filtered
            | None \<Rightarrow> filtered);
         filtered =
           (case f_priceMin filters of
              Some n \<Rightarrow> if n \<noteq> 0 then filter (\<lambda>p. priceMonthly p \<ge> n) filtered else filtered
            | None \<Rightarrow> filtered);
         filtered =
           (case f_priceMax filters of
              Some n \<Rightarrow> if n \<noteq> 0 then filter (\<lambda>p. priceMonthly p \<le> n) filtered else filtered
            | None \<Rightarrow> filtered);
         filtered =
           (case f_propertyType filters of
              Some t \<Rightarrow> if t \<noteq> [] then filter (\<lambda>p. propertyType p = t) filtered else filtered
            | None \<Rightarrow> filtered);
         filtered =
           (case f_bedrooms filters of
              Some n \<Rightarrow> if n \<noteq> 0 then filter (\<lambda>p. bedrooms p \<ge> n) filtered else filtered
            | None \<Rightarrow> filtered);
         filtered =
           (case f_bathrooms filters of
              Some n \<Rightarrow> if n \<noteq> 0 then filter (\<lambda>p. bathrooms p \<ge> n) filtered else filtered
            | None \<Rightarrow> filtered)
     in filtered)"

section \<open>The sample dataset\<close>

text \<open>
  \<^verbatim>\<open>mockProperties\<close> of src/data/mockData.ts. The dates are computed from
  \<^verbatim>\<open>Date.now()\<close> when the module is loaded: the clock reading and
  \<^verbatim>\<open>Date.prototype.toISOString\<close> are the two arguments.
\<close>

definition mockProperties :: "int \<Rightarrow> (int \<Rightarrow> string) \<Rightarrow> Property list" where
  "mockProperties now toISOString =
    [\<lparr>id' = ''1'',
      ownerId = ''owner-1'',
      title = ''Modern 3BR House in Masaki'',
      description = ''Beautiful modern house in the prestigious Masaki area with sea views. Perfect for professionals and families. Fully furnished with modern amenities including air conditioning, generator backup, and 24/7 security.'',
      priceMonthly = 1200000,
      location = \<lparr>address = ''Masaki Peninsula'', city = ''Dar es Salaam'',
                  district = ''Masaki'', neighborhood = ''Masaki''\<rparr>,
      bedrooms = 3,
      bathrooms = 2,
      propertyType = ''house'',
      amenities = [''Parking'', ''Security'', ''Generator'', ''Water Tank'', ''Garden'', ''Air Conditioning'', ''Internet'', ''Furnished''],
      images = [''https://images.pexels.com/photos/106399/pexels-photo-106399.jpeg?auto=compress&cs=tinysrgb&w=800'',
                ''https://images.pexels.com/photos/1643383/pexels-photo-1643383.jpeg?auto=compress&cs=tinysrgb&w=800'',
                ''https://images.pexels.com/photos/1571460/pexels-photo-1571460.jpeg?auto=compress&cs=tinysrgb&w=800''],
      status = ''available'',
      createdDate = toISOString (now - 2 * 24 * 60 * 60 * 1000),
      updatedDate = toISOString (now - 2 * 24 * 60 * 60 * 1000),
      featured = True,
      views = None\<rparr>,
     \<lparr>id' = ''2'',
      ownerId = ''owner-1'',
      title = ''Cozy 2BR Apartment in Mikocheni'',
      description = ''Well-maintained 2-bedroom apartment in Mikocheni. Close to shopping centers and public transport. Features include parking space, water tank, and reliable internet connection.'',
      priceMonthly = 550000,
      location = \<lparr>address = ''Mikocheni B'', city = ''Dar es Salaam'',
                  district = ''Mikocheni'', neighborhood = ''Mikocheni''\<rparr>,
      bedrooms = 2,
      bathrooms = 1,
      propertyType = ''apartment'',
      amenities = [''Parking'', ''Security'', ''Water Tank'', ''Internet'', ''Balcony''],
      images = [''https://images.pexels.com/photos/1571453/pexels-photo-1571453.jpeg?auto=compress&cs=tinysrgb&w=800'',
                ''https://images.pexels.com/photos/1643383/pexels-photo-1643383.jpeg?auto=compress&cs=tinysrgb&w=800''],
      status = ''available'',
      createdDate = toISOString (now - 1 * 24 * 60 * 60 * 1000),
      updatedDate = toISOString (now - 1 * 24 * 60 * 60 * 1000),
      featured = False,
      views = None\<rparr>,
     \<lparr>id' = ''3'',
      ownerId = ''owner-1'',
      title = ''Luxury Villa in Oyster Bay'',
      description = ''Stunning luxury villa with ocean views in Oyster Bay. Features spacious rooms, private garden, swimming pool, and top-notch security. Perfect for executives and diplomats.'',
      priceMonthly = 2500000,
      location = \<lparr>address = ''Oyster Bay Road'', city = ''Dar es Salaam'',
                  district = ''Oyster Bay'', neighborhood = ''Oyster Bay''\<rparr>,
      bedrooms = 4,
      bathrooms = 3,
      propertyType = ''villa'',
      amenities = [''Parking'', ''Security'', ''Generator'', ''Water Tank'', ''Garden'', ''Swimming Pool'', ''Air Conditioning'', ''Internet'', ''Furnished''],
      images = [''https://images.pexels.com/photos/1396122/pexels-photo-1396122.jpeg?auto=compress&cs=tinysrgb&w=800'',
                ''https://images.pexels.com/photos/1732414/pexels-photo-1732414.jpeg?auto=compress&cs=tinysrgb&w=800'',
                ''https://images.pexels.com/photos/259588/pexels-photo-259588.jpeg?auto=compress&cs=tinysrgb&w=800''],
      status = ''available'',
      createdDate = toISOString (now - 3 * 24 * 60 * 60 * 1000),
      updatedDate = toISOString (now - 3 * 24 * 60 * 60 * 1000),
      featured = True,
      views = None\<rparr>,
     \<lparr>id' = ''4'',
      ownerId = ''owner-1'',
      title = ''Executive House in Mwanza City'',
      description = ''Executive 4-bedroom house near Lake Victoria. Perfect for business executives with family. Features include large compound, parking for 3 cars, generator, and beautiful lake views.'',
      priceMonthly = 800000,
      location = \<lparr>address = ''Ilemela District'', city = ''Mwanza'',
                  district = ''Ilemela'', neighborhood = ''Ilemela''\<rparr>,
      bedrooms = 4,
      bathrooms = 3,
      propertyType = ''house'',
      amenities = [''Parking'', ''Security'', ''Generator'', ''Water Tank'', ''Garden'', ''Internet''],
      images = [''https://images.pexels.com/photos/323780/pexels-photo-323780.jpeg?auto=compress&cs=tinysrgb&w=800'',
                ''https://images.pexels.com/photos/1396122/pexels-photo-1396122.jpeg?auto=compress&cs=tinysrgb&w=800''],
      status = ''available'',
      createdDate = toISOString (now - 4 * 24 * 60 * 60 * 1000),
      updatedDate = toISOString (now - 4 * 24 * 60 * 60 * 1000),
      featured = False,
      views = None\<rparr>,
     \<lparr>id' = ''5'',
      ownerId = ''owner-1'',
      title = ''Modern Studio in Mbeya'',
      description = ''Compact modern studio apartment perfect for students and young professionals in Mbeya. Features include kitchenette, private bathroom, and reliable internet.'',
      priceMonthly = 280000,
      location = \<lparr>address = ''Mbeya Urban'', city = ''Mbeya'',
                  district = ''Mbeya Urban'', neighborhood = ''Mbeya Urban''\<rparr>,
      bedrooms = 1,
      bathrooms = 1,
      propertyType = ''studio'',
      amenities = [''Security'', ''Internet''],
      images = [''https://images.pexels.com/photos/1571460/pexels-photo-1571460.jpeg?auto=compress&cs=tinysrgb&w=800''],
      status = ''available'',
      createdDate = toISOString (now - 5 * 24 * 60 * 60 * 1000),
      updatedDate = toISOString (now - 5 * 24 * 60 * 60 * 1000),
      featured = False,
      views = None\<rparr>,
     \<lparr>id' = ''6'',
      ownerId = ''owner-1'',
      title = ''Safari Lodge Style House in Arusha'',
      description = ''Unique safari lodge style house in Arusha, perfect for tourists and expatriates. Close to Mount Meru with stunning mountain views. Features include fireplace, large garden, and traditional Tanzanian architecture.'',
      priceMonthly = 950000,
      location = \<lparr>address = ''Arusha Central'', city = ''Arusha'',
                  district = ''Arusha Central'', neighborhood = ''Arusha Central''\<rparr>,
      bedrooms = 3,
      bathrooms = 2,
      propertyType = ''house'',
      amenities = [''Parking'', ''Security'', ''Water Tank'', ''Garden'', ''Internet''],
      images = [''https://images.pexels.com/photos/259588/pexels-photo-259588.jpeg?auto=compress&cs=tinysrgb&w=800'',
                ''https://images.pexels.com/photos/1396122/pexels-photo-1396122.jpeg?auto=compress&cs=tinysrgb&w=800''],
      status = ''available'',
      createdDate = toISOString (now - 6 * 24 * 60 * 60 * 1000),
      updatedDate = toISOString (now - 6 * 24 * 60 * 60 * 1000),
      featured = False,
      views = None\<rparr>,
     \<lparr>id' = ''7'',
      ownerId = ''owner-1'',
      title = ''Family Apartment in Mbeya Highlands'',
      description = ''Spacious 3-bedroom apartment in the cool highlands of Mbeya. Perfect for families with children. Features include balcony with mountain views, parking, and proximity to schools.'',
      priceMonthly = 450000,
      location = \<lparr>address = ''Mbeya Highlands'', city = ''Mbeya'',
                  district = ''Mbeya Highlands'', neighborhood = ''Mbeya Highlands''\<rparr>,
      bedrooms = 3,
      bathrooms = 2,
      propertyType = ''apartment'',
      amenities = [''Security'', ''Water Tank'', ''Internet''],
      images = [''https://images.pexels.com/photos/323780/pexels-photo-323780.jpeg?auto=compress&cs=tinysrgb&w=800'',
                ''https://images.pexels.com/photos/1643383/pexels-photo-1643383.jpeg?auto=compress&cs=tinysrgb&w=800''],
      status = ''available'',
      createdDate = toISOString (now - 7 * 24 * 60 * 60 * 1000),
      updatedDate = toISOString (now - 7 * 24 * 60 * 60 * 1000),
      featured = False,
      views = None\<rparr>,
     \<lparr>id' = ''8'',
      ownerId = ''owner-1'',
      title = ''Single Room in Temeke'',
      description = ''Affordable single room in Temeke area. Perfect for students and young professionals. Shared bathroom and kitchen facilities. Close to public transport and markets.'',
      priceMonthly = 180000,
      location = \<lparr>address = ''Temeke District'', city = ''Dar es Salaam'',
                  district = ''Temeke'', neighborhood = ''Temeke''\<rparr>,
      bedrooms = 1,
      bathrooms = 1,
      propertyType = ''room'',
      amenities = [''Security''],
      images = [''https://images.pexels.com/photos/1571460/pexels-photo-1571460.jpeg?auto=compress&cs=tinysrgb&w=800''],
      status = ''available'',
      createdDate = toISOString (now - 8 * 24 * 60 * 60 * 1000),
      updatedDate = toISOString (now - 8 * 24 * 60 * 60 * 1000),
      featured = False,
      views = None\<rparr>,
     \<lparr>id' = ''9'',
      ownerId = ''owner-1'',
      title = ''University Area House in Morogoro'',
      description = ''Perfect for university staff and families. 3-bedroom house near Sokoine University of Agriculture. Features include large compound, fruit trees, and quiet neighborhood.'',
      priceMonthly = 600000,
      location = \<lparr>address = ''University Area'', city = ''Morogoro'',
                  district = ''University Area'', neighborhood = ''University Area''\<rparr>,
      bedrooms = 3,
      bathrooms = 2,
      propertyType = ''house'',
      amenities = [''Parking'', ''Security'', ''Water Tank'', ''Garden'', ''Internet''],
      images = [''https://images.pexels.com/photos/106399/pexels-photo-106399.jpeg?auto=compress&cs=tinysrgb&w=800'',
                ''https://images.pexels.com/photos/323780/pexels-photo-323780.jpeg?auto=compress&cs=tinysrgb&w=800''],
      status = ''available'',
      createdDate = toISOString (now - 9 * 24 * 60 * 60 * 1000),
      updatedDate = toISOString (now - 9 * 24 * 60 * 60 * 1000),
      featured = False,
      views = None\<rparr>]"

section \<open>The fallback filter as a predicate on one property\<close>

text \<open>One test for each step of \<open>applyFilters\<close>: the step keeps \<open>p\<close> exactly when the
  test holds (lemma \<open>applyFilters_filter\<close> below).\<close>

definition location_ok :: "SearchFilters \<Rightarrow> Property \<Rightarrow> bool" where
  "location_ok f p =
    (case f_location f of
       Some l \<Rightarrow>
         if l \<noteq> [] then js_includes (toLowerCase (city (location p))) (toLowerCase l) else True
     | None \<Rightarrow> True)"

definition priceMin_ok :: "SearchFilters \<Rightarrow> Property \<Rightarrow> bool" where
  "priceMin_ok f p =
    (case f_priceMin f of
       Some n \<Rightarrow> if n \<noteq> 0 then priceMonthly p \<ge> n else True
     | None \<Rightarrow> True)"

definition priceMax_ok :: "SearchFilters \<Rightarrow> Property \<Rightarrow> bool" where
  "priceMax_ok f p =
    (case f_priceMax f of
       Some n \<Rightarrow> if n \<noteq> 0 then priceMonthly p \<le> n else True
     | None \<Rightarrow> True)"

definition propertyType_ok :: "SearchFilters \<Rightarrow> Property \<Rightarrow> bool" where
  "propertyType_ok f p =
    (case f_propertyType f of
       Some t \<Rightarrow> if t \<noteq> [] then propertyType p = t else True
     | None \<Rightarrow> True)"

definition bedrooms_ok :: "SearchFilters \<Rightarrow> Property \<Rightarrow> bool" where
  "bedrooms_ok f p =
    (case f_bedrooms f of
       Some n \<Rightarrow> if n \<noteq> 0 then bedrooms p \<ge> n else True
     | None \<Rightarrow> True)"

definition bathrooms_ok :: "SearchFilters \<Rightarrow> Property \<Rightarrow> bool" where
  "bathrooms_ok f p =
    (case f_bathrooms f of
       Some n \<Rightarrow> if n \<noteq> 0 then bathrooms p \<ge> n else True
     | None \<Rightarrow> True)"

definition fallback_matches :: "SearchFilters \<Rightarrow> Property \<Rightarrow> bool" where
  "fallback_matches f p =
    (location_ok f p \<and> priceMin_ok f p \<and> priceMax_ok f p \<and> propertyType_ok f p
     \<and> bedrooms_ok f p \<and> bathrooms_ok f p)"

section \<open>The remote list query: db.properties.getAll\<close>

text \<open>
  The query builder of the hosted service is not part of the repository. A query is the
  list of the conditions that \<^verbatim>\<open>getAll\<close> chains onto it, with its ordering, limit and
  range; \<^verbatim>\<open>.or('title.ilike.%s%,description.ilike.%s%,...')\<close> is the disjunction of the
  ilike conditions its string lists. The \<^verbatim>\<open>select\<close> clause (all columns and the owner's
  profile) is not a condition and is left out.
\<close>

datatype cond =
    Eq string jsval
  | ILike string string
  | Gte string int
  | Lte string int
  | OrILike "(string \<times> string) list"

record Query =
  q_conds :: "cond list"
  q_order :: "string \<times> bool"
  q_limit :: "int option"
  q_range :: "(int \<times> int) option"

text \<open>
  Every step of \<^verbatim>\<open>getAll\<close> has the form \<^verbatim>\<open>if (filters?.x) { query = ... }\<close>: the
  update runs when the optional field is truthy, that is, present and not the empty
  string (\<open>if_str\<close>) or not the number 0 (\<open>if_num\<close>).
\<close>

definition if_str :: "string option \<Rightarrow> (string \<Rightarrow> 'a \<Rightarrow> 'a) \<Rightarrow> 'a \<Rightarrow> 'a" where
  "if_str x upd v = (case x of Some s \<Rightarrow> if s \<noteq> [] then upd s v else v | None \<Rightarrow> v)"

definition if_num :: "int option \<Rightarrow> (int \<Rightarrow> 'a \<Rightarrow> 'a) \<Rightarrow> 'a \<Rightarrow> 'a" where
  "if_num x upd v = (case x of Some n \<Rightarrow> if n \<noteq> 0 then upd n v else v | None \<Rightarrow> v)"

text \<open>A builder method that adds a condition.\<close>

definition add_cond :: "cond \<Rightarrow> Query \<Rightarrow> Query" where
  "add_cond cnd query = query\<lparr>q_conds := q_conds query @ [cnd]\<rparr>"

text \<open>\<^verbatim>\<open>db.properties.getAll\<close> (lines 549-605 of the listing). The pair in \<open>q_order\<close> is
  the column and \<^verbatim>\<open>ascending\<close>.\<close>

definition getAll :: "SearchFilters \<Rightarrow> Query" where
  "getAll filters =
    (let query = \<lparr>q_conds = [Eq ''is_available'' (JBool True)],
                  q_order = (''created_at'', False), q_limit = None, q_range = None\<rparr>;
         query = if_str (f_city filters)
                   (\<lambda>c. add_cond (ILike ''city'' (''%'' @ c @ ''%''))) query;
         query = if_num (f_priceMin filters) (\<lambda>n. add_cond (Gte ''monthly_rent'' n)) query;
         query = if_num (f_priceMax filters) (\<lambda>n. add_cond (Lte ''monthly_rent'' n)) query;
         query = if_str (f_propertyType filters)
                   (\<lambda>t. add_cond (Eq ''property_type'' (JStr t))) query;
         query = if_num (f_bedrooms filters) (\<lambda>n. add_cond (Gte ''bedrooms'' n)) query;
         query = if_num (f_bathrooms filters) (\<lambda>n. add_cond (Gte ''bathrooms'' n)) query;
         query = if_str (f_search filters)
                   (\<lambda>s. add_cond
                      (OrILike [(''title'', ''%'' @ s @ ''%''), (''description'', ''%'' @ s @ ''%''),
                                (''city'', ''%'' @ s @ ''%''), (''area'', ''%'' @ s @ ''%'')])) query;
         query = if_num (f_limit filters) (\<lambda>n q. q\<lparr>q_limit := Some n\<rparr>) query;
         query = if_num (f_offset filters)
                   (\<lambda>k q. q\<lparr>q_range :=
                      Some (k, k + (case f_limit filters of
                                      Some n \<Rightarrow> if n \<noteq> 0 then n else 10
                                    | None \<Rightarrow> 10) - 1)\<rparr>) query
     in query)"

text \<open>
  What a condition says of a row, after the operators of the hosted data service:
  \<^verbatim>\<open>eq\<close> is equality, \<^verbatim>\<open>gte\<close> and \<^verbatim>\<open>lte\<close> are the inclusive comparisons of a numeric
  column, \<^verbatim>\<open>ilike\<close> is SQL's case-insensitive LIKE, where \<^verbatim>\<open>%\<close> stands for any run of
  characters and \<^verbatim>\<open>_\<close> for any one character (escapes are not modelled). A row is the raw
  record the converters read.
\<close>

fun like_match :: "string \<Rightarrow> string \<Rightarrow> bool" where
  "like_match [] s = (s = [])"
| "like_match (c # p) [] = (c = CHR ''%'' \<and> like_match p [])"
| "like_match (c # p) (d # s) =
     (if c = CHR ''%'' then like_match p (d # s) \<or> like_match (c # p) s
      else (c = CHR ''_'' \<or> c = d) \<and> like_match p s)"

definition ilike :: "string \<Rightarrow> string \<Rightarrow> bool" where
  "ilike pat s = like_match (toLowerCase pat) (toLowerCase s)"

definition column_ilike :: "jsobject \<Rightarrow> string \<times> string \<Rightarrow> bool" where
  "column_ilike row kp =
    (case field row (fst kp) of JStr s \<Rightarrow> ilike (snd kp) s | _ \<Rightarrow> False)"

fun row_satisfies :: "jsobject \<Rightarrow> cond \<Rightarrow> bool" where
  "row_satisfies row (Eq k v) = (field row k = v)"
| "row_satisfies row (ILike k pat) = column_ilike row (k, pat)"
| "row_satisfies row (Gte k n) = (case field row k of JNum m \<Rightarrow> m \<ge> n | _ \<Rightarrow> False)"
| "row_satisfies row (Lte k n) = (case field row k of JNum m \<Rightarrow> m \<le> n | _ \<Rightarrow> False)"
| "row_satisfies row (OrILike kps) = list_ex (column_ilike row) kps"

definition remote_matches :: "SearchFilters \<Rightarrow> jsobject \<Rightarrow> bool" where
  "remote_matches filters row = list_all (row_satisfies row) (q_conds (getAll filters))"

text \<open>
  A row stores a property when the columns of the \<^verbatim>\<open>properties\<close> table
  (\<^verbatim>\<open>Database['public']['Tables']['properties']['Row']\<close>) hold the Property's fields:
  \<^verbatim>\<open>monthly_rent\<close> the price, \<^verbatim>\<open>is_available\<close> whether the status is 'available'.
\<close>

definition row_stores :: "jsobject \<Rightarrow> Property \<Rightarrow> bool" where
  "row_stores row p =
    (field row ''monthly_rent'' = JNum (priceMonthly p)
     \<and> field row ''city'' = JStr (city (location p))
     \<and> field row ''property_type'' = JStr (propertyType p)
     \<and> field row ''bedrooms'' = JNum (bedrooms p)
     \<and> field row ''bathrooms'' = JNum (bathrooms p)
     \<and> field row ''is_available'' = JBool (status p = ''available''))"

text \<open>A listing that has been rented out, and the row that stores it.\<close>

definition rented_property :: Property where
  "rented_property =
    \<lparr>id' = ''44444444-4444-4444-4444-444444444444'',
     ownerId = ''550e8400-e29b-41d4-a716-446655440000'',
     title = ''Executive House in Mwanza City'',
     description = ''Executive 4-bedroom house near Lake Victoria.'',
     priceMonthly = 800000,
     location = \<lparr>address = [], city = ''Mwanza'', district = ''Ilemela'',
                 neighborhood = ''Ilemela''\<rparr>,
     bedrooms = 4,
     bathrooms = 3,
     propertyType = ''house'',
     amenities = [],
     images = [''https://images.pexels.com/photos/323780/pexels-photo-323780.jpeg''],
     status = ''rented'',
     createdDate = ''2025-06-20T10:42:32.000Z'',
     updatedDate = ''2025-06-24T10:42:32.000Z'',
     featured = False,
     views = None\<rparr>"

definition rented_row :: jsobject where
  "rented_row =
    [(''id'', JStr ''44444444-4444-4444-4444-444444444444''),
     (''owner_id'', JStr ''550e8400-e29b-41d4-a716-446655440000''),
     (''title'', JStr ''Executive House in Mwanza City''),
     (''description'', JStr ''Executive 4-bedroom house near Lake Victoria.''),
     (''property_type'', JStr ''house''),
     (''bedrooms'', JNum 4),
     (''bathrooms'', JNum 3),
     (''monthly_rent'', JNum 800000),
     (''city'', JStr ''Mwanza''),
     (''area'', JStr ''Ilemela''),
     (''contact_phone'', JStr ''+255712345678''),
     (''images'', JArr [JStr ''https://images.pexels.com/photos/323780/pexels-photo-323780.jpeg'']),
     (''amenities'', JArr []),
     (''is_available'', JBool False),
     (''created_at'', JStr ''2025-06-20T10:42:32.000Z''),
     (''updated_at'', JStr ''2025-06-24T10:42:32.000Z'')]"

text \<open>The same listing while it is on offer, the row that stores it, and a filter set
  with a lower price bound and a bedroom minimum.\<close>

definition avail_property :: Property where
  "avail_property = rented_property\<lparr>status := ''available''\<rparr>"

definition avail_row :: jsobject where
  "avail_row = (''is_available'', JBool True) # rented_row"

definition two_filters :: SearchFilters where
  "two_filters = no_filters\<lparr>f_priceMin := Some 500000, f_bedrooms := Some 2\<rparr>"

section \<open>Data-Source Selector: the query function of useProperties\<close>

text \<open>
  \<^verbatim>\<open>queryFn\<close> of \<^verbatim>\<open>useProperties\<close> (src/hooks/useProperties.ts, lines 56-96). Without a
  configured backend it filters the sample dataset. Otherwise it awaits the list query:
  a response with a truthy \<^verbatim>\<open>error\<close> is thrown (\<open>Inl\<close>), and the rows of \<^verbatim>\<open>data\<close> are
  converted, no rows (\<^verbatim>\<open>null\<close>) giving the empty list. The backend is the function that
  answers a query.
\<close>

record response =
  r_data :: "jsobject list option"
  r_error :: jsval

datatype listing = FromMock "Property list" | FromRows "jsobject list"

definition useProperties_queryFn ::
  "bool \<Rightarrow> (Query \<Rightarrow> response) \<Rightarrow> int \<Rightarrow> (int \<Rightarrow> string) \<Rightarrow> SearchFilters \<Rightarrow> jsval + listing" where
  "useProperties_queryFn isSupabaseConfigured backend now toISOString filters =
    (if \<not> isSupabaseConfigured then
       Inr (FromMock (applyFilters (mockProperties now toISOString) filters))
     else
       (let resp = backend (getAll filters) in
        if truthy (r_error resp) then Inl (r_error resp)
        else Inr (FromRows (case r_data resp of
                              None \<Rightarrow> []
                            | Some rows \<Rightarrow> map convertDbPropertyToAppProperty rows))))"

section \<open>Query keys and the query cache\<close>

text \<open>\<^verbatim>\<open>PROPERTY_KEYS\<close> (src/hooks/useProperties.ts, lines 13-20). A key is an array whose
  parts are strings or a filters object.\<close>

datatype keypart = KStr string | KFilters SearchFilters

type_synonym querykey = "keypart list"

definition PROPERTY_KEYS_all :: querykey where
  "PROPERTY_KEYS_all = [KStr ''properties'']"

definition PROPERTY_KEYS_lists :: querykey where
  "PROPERTY_KEYS_lists = PROPERTY_KEYS_all @ [KStr ''list'']"

definition PROPERTY_KEYS_list :: "SearchFilters \<Rightarrow> querykey" where
  "PROPERTY_KEYS_list filters = PROPERTY_KEYS_lists @ [KFilters filters]"

definition PROPERTY_KEYS_details :: querykey where
  "PROPERTY_KEYS_details = PROPERTY_KEYS_all @ [KStr ''detail'']"

definition PROPERTY_KEYS_detail :: "string \<Rightarrow> querykey" where
  "PROPERTY_KEYS_detail i = PROPERTY_KEYS_details @ [KStr i]"

definition PROPERTY_KEYS_byOwner :: "string \<Rightarrow> querykey" where
  "PROPERTY_KEYS_byOwner owner = PROPERTY_KEYS_all @ [KStr ''owner'', KStr owner]"

text \<open>
  The query client is the caching library's, not the repository's. Its cache is a map
  from keys to entries; an entry has the data (\<open>None\<close> is \<^verbatim>\<open>undefined\<close>) and the flag
  \<^verbatim>\<open>isInvalidated\<close>. The three operations the hooks call:
  \<^item> \<^verbatim>\<open>invalidateQueries({queryKey})\<close> marks every entry whose key starts with the given
    key;
  \<^item> \<^verbatim>\<open>removeQueries({queryKey})\<close> drops every entry whose key starts with the given key;
  \<^item> \<^verbatim>\<open>setQueryData(key, updater)\<close> stores a value under exactly that key, as fresh; with
    a function it stores the function's result on the current data, and does nothing when
    that result is \<^verbatim>\<open>undefined\<close>.
\<close>

datatype cached = CNull | CProperty Property | CList "Property list"

record entry =
  data :: "cached option"
  isInvalidated :: bool

type_synonym cache = "querykey \<Rightarrow> entry option"

definition invalidateQueries :: "querykey \<Rightarrow> cache \<Rightarrow> cache" where
  "invalidateQueries queryKey c =
    (\<lambda>k. case c k of
           None \<Rightarrow> None
         | Some e \<Rightarrow> Some (if prefix queryKey k then e\<lparr>isInvalidated := True\<rparr> else e))"

definition removeQueries :: "querykey \<Rightarrow> cache \<Rightarrow> cache" where
  "removeQueries queryKey c = (\<lambda>k. if prefix queryKey k then None else c k)"

definition setQueryData :: "querykey \<Rightarrow> (cached option \<Rightarrow> cached option) \<Rightarrow> cache \<Rightarrow> cache" where
  "setQueryData queryKey updater c =
    (case updater (case c queryKey of None \<Rightarrow> None | Some e \<Rightarrow> data e) of
       None \<Rightarrow> c
     | Some v \<Rightarrow> c(queryKey \<mapsto> \<lparr>data = Some v, isInvalidated = False\<rparr>))"

text \<open>A later read of a key fetches again when the cache has no entry for it or the
  entry is invalidated.\<close>

definition needs_refetch :: "cache \<Rightarrow> querykey \<Rightarrow> bool" where
  "needs_refetch c k = (case c k of None \<Rightarrow> True | Some e \<Rightarrow> isInvalidated e)"

section \<open>The onSuccess handlers of the mutation hooks\<close>

text \<open>\<^verbatim>\<open>useCreateProperty\<close>, lines 166-170.\<close>

definition useCreateProperty_onSuccess :: "Property \<Rightarrow> cache \<Rightarrow> cache" where
  "useCreateProperty_onSuccess newProperty c =
    (let c = invalidateQueries PROPERTY_KEYS_lists c;
         c = invalidateQueries (PROPERTY_KEYS_byOwner (ownerId newProperty)) c
     in c)"

text \<open>\<^verbatim>\<open>useUpdateProperty\<close>, lines 192-202.\<close>

definition useUpdateProperty_onSuccess :: "Property \<Rightarrow> cache \<Rightarrow> cache" where
  "useUpdateProperty_onSuccess updatedProperty c =
    (let c = setQueryData (PROPERTY_KEYS_detail (id' updatedProperty))
               (\<lambda>old. Some (CProperty updatedProperty)) c;
         c = invalidateQueries PROPERTY_KEYS_lists c;
         c = invalidateQueries (PROPERTY_KEYS_byOwner (ownerId updatedProperty)) c
     in c)"

text \<open>\<^verbatim>\<open>useDeleteProperty\<close>, lines 224-231.\<close>

definition useDeleteProperty_onSuccess :: "string \<Rightarrow> cache \<Rightarrow> cache" where
  "useDeleteProperty_onSuccess deletedId c =
    (let c = removeQueries (PROPERTY_KEYS_detail deletedId) c;
         c = invalidateQueries PROPERTY_KEYS_lists c;
         c = invalidateQueries PROPERTY_KEYS_all c
     in c)"

text \<open>\<^verbatim>\<open>useIncrementViews\<close>, lines 251-260: the updater returns a falsy \<^verbatim>\<open>old\<close>
  (\<^verbatim>\<open>undefined\<close>, \<^verbatim>\<open>null\<close>) as it is, and otherwise a copy with
  \<^verbatim>\<open>views: (old.views || 0) + 1\<close>. Its argument is typed \<^verbatim>\<open>Property | undefined\<close>; a list,
  which no detail key holds, is left as it is.\<close>

definition incrementViews_updater :: "cached option \<Rightarrow> cached option" where
  "incrementViews_updater old =
    (case old of
       None \<Rightarrow> None
     | Some CNull \<Rightarrow> Some CNull
     | Some (CProperty p) \<Rightarrow>
         Some (CProperty
           (p\<lparr>views := Some ((case views p of None \<Rightarrow> 0 | Some v \<Rightarrow> if v \<noteq> 0 then v else 0) + 1)\<rparr>))
     | Some (CList ps) \<Rightarrow> Some (CList ps))"

definition useIncrementViews_onSuccess :: "string \<Rightarrow> cache \<Rightarrow> cache" where
  "useIncrementViews_onSuccess propertyId c =
    setQueryData (PROPERTY_KEYS_detail propertyId) incrementViews_updater c"

text \<open>The methods that the object \<^verbatim>\<open>db.properties\<close> defines (lines 547-658 of the
  listing). Calling any other name on it throws a \<^verbatim>\<open>TypeError\<close>.\<close>

definition db_properties :: "string list" where
  "db_properties = [''getAll'', ''getByOwner'', ''getById'', ''create'', ''update'', ''delete'']"

text \<open>
  \<^verbatim>\<open>mutationFn\<close> of \<^verbatim>\<open>useIncrementViews\<close>, lines 242-250: without a configured backend it
  returns at once; otherwise it calls \<^verbatim>\<open>db.properties.incrementViews\<close>, awaits the
  response and throws its error, if there is one. A throw inside the asynchronous
  function rejects its promise. The arguments are the readiness flag and whether the
  backend's response carries an error.
\<close>

datatype rejection = TypeError | ResponseError

datatype outcome = Resolved | Rejected rejection

definition useIncrementViews_mutationFn :: "bool \<Rightarrow> bool \<Rightarrow> outcome" where
  "useIncrementViews_mutationFn isSupabaseConfigured response_error =
    (if \<not> isSupabaseConfigured then Resolved
     else if ''incrementViews'' \<in> set db_properties then
       (if response_error then Rejected ResponseError else Resolved)
     else Rejected TypeError)"

text \<open>
  The life of one mutation, as the caching library runs it: \<^verbatim>\<open>mutate(propertyId)\<close> calls
  \<^verbatim>\<open>onMutate\<close>, which this hook does not define, and then \<^verbatim>\<open>mutationFn\<close>; the mutation
  is pending until the promise settles. When it resolves, \<^verbatim>\<open>onSuccess\<close> runs; when it
  rejects, \<^verbatim>\<open>onError\<close> would run, which this hook does not define either.
\<close>

datatype mutation_status = Idle | Loading string | Success | Failed

record client =
  queries :: cache
  mutation :: mutation_status

definition mutate :: "string \<Rightarrow> client \<Rightarrow> client" where
  "mutate propertyId s = s\<lparr>mutation := Loading propertyId\<rparr>"

definition settle :: "outcome \<Rightarrow> client \<Rightarrow> client" where
  "settle r s =
    (case mutation s of
       Loading propertyId \<Rightarrow>
         (case r of
            Resolved \<Rightarrow>
              s\<lparr>queries := useIncrementViews_onSuccess propertyId (queries s),
                mutation := Success\<rparr>
          | Rejected err \<Rightarrow> s\<lparr>mutation := Failed\<rparr>)
     | _ \<Rightarrow> s)"

text \<open>The view counter that the cache shows for a property.\<close>

definition cached_views :: "cache \<Rightarrow> string \<Rightarrow> int option" where
  "cached_views c propertyId =
    (case c (PROPERTY_KEYS_detail propertyId) of
       Some e \<Rightarrow> (case data e of Some (CProperty p) \<Rightarrow> views p | _ \<Rightarrow> None)
     | None \<Rightarrow> None)"

text \<open>A cache that holds the detail record of one property and nothing else.\<close>

definition detail_only :: "Property \<Rightarrow> cache" where
  "detail_only p =
    Map.empty(PROPERTY_KEYS_detail (id' p) \<mapsto> \<lparr>data = Some (CProperty p), isInvalidated = False\<rparr>)"

text \<open>A cache that holds, for the id of \<open>rented_property\<close>, the answer of an earlier
  detail query that found nothing.\<close>

definition not_found_cache :: cache where
  "not_found_cache =
    Map.empty(PROPERTY_KEYS_detail ''44444444-4444-4444-4444-444444444444''
      \<mapsto> \<lparr>data = Some CNull, isInvalidated = False\<rparr>)"

section \<open>The retry option of the query client\<close>

text \<open>
  \<^verbatim>\<open>defaultOptions.queries.retry\<close> (src/main.tsx, lines 45-51). The error's \<^verbatim>\<open>status\<close> is
  optional: \<open>None\<close> is an error without one, for which both comparisons are false.
\<close>

definition retry :: "int \<Rightarrow> int option \<Rightarrow> bool" where
  "retry failureCount error_status =
    (if (case error_status of Some st \<Rightarrow> st \<ge> 400 \<and> st < 500 | None \<Rightarrow> False) then False
     else failureCount < 3)"

text \<open>
  The caching library asks \<^verbatim>\<open>retry(failureCount, error)\<close> after each failed call of the
  query function, with the number of failures before this one, and calls the function
  again when the answer is true. \<open>attempts\<close> is the number of calls made, from a given
  failure count on, to a backend that fails every time with the same error.
\<close>

function attempts :: "int option \<Rightarrow> int \<Rightarrow> int" where
  "attempts error_status failureCount =
    (if retry failureCount error_status then attempts error_status (failureCount + 1)
     else failureCount + 1)"
  by pat_completeness auto
termination
  by (relation "measure (\<lambda>(e, n). nat (3 - n))") (auto simp: retry_def split: if_splits)

declare attempts.simps [simp del]

section \<open>Normalization: results\<close>

lemma field_HomePage_images:
  "field (convertDbPropertyToAppProperty_HomePage r) ''images''
     = js_or (field r ''images'') (JArr [JStr placeholder])"
  by (simp add: convertDbPropertyToAppProperty_HomePage_def field_def)

lemma field_hook_images:
  "field (convertDbPropertyToAppProperty r) ''images''
     = js_or (field r ''images'') (JArr [JStr placeholder])"
  by (simp add: convertDbPropertyToAppProperty_def field_def)

lemma field_HomePage_amenities:
  "field (convertDbPropertyToAppProperty_HomePage r) ''amenities''
     = js_or (field r ''amenities'') (JArr [])"
  by (simp add: convertDbPropertyToAppProperty_HomePage_def field_def)

lemma field_hook_amenities:
  "field (convertDbPropertyToAppProperty r) ''amenities''
     = js_or (field r ''amenities'') (JArr [])"
  by (simp add: convertDbPropertyToAppProperty_def field_def)

text \<open>The converter of the HomePage reads \<^verbatim>\<open>monthly_rent\<close>: on the scenario's record
  \<^verbatim>\<open>{monthly_rent: 800000, is_available: true, images: null, amenities: null}\<close> it gives
  priceMonthly 800000, status 'available', images the one-element list of the placeholder
  URL, and amenities the empty list.\<close>

lemma HomePage_converter_on_scenario:
  "field (convertDbPropertyToAppProperty_HomePage scenario_raw) ''priceMonthly'' = JNum 800000
   \<and> field (convertDbPropertyToAppProperty_HomePage scenario_raw) ''status'' = JStr ''available''
   \<and> field (convertDbPropertyToAppProperty_HomePage scenario_raw) ''images''
       = JArr [JStr ''https://images.pexels.com/photos/106399/pexels-photo-106399.jpeg'']
   \<and> field (convertDbPropertyToAppProperty_HomePage scenario_raw) ''amenities'' = JArr []"
  by (simp add: convertDbPropertyToAppProperty_HomePage_def scenario_raw_def field_def
      js_or_def placeholder_def)

text \<open>
  C1 (evaluation at the failing input). The claim says that the raw record
  \<^verbatim>\<open>{monthly_rent: 800000, is_available: true, images: null, amenities: null}\<close> normalizes
  to priceMonthly 800000, status 'available', images the placeholder list and amenities
  the empty list. The converter of the hook, the one that the data layer applies to the
  rows of the \<^verbatim>\<open>properties\<close> table, reads the price from \<^verbatim>\<open>price_monthly\<close>, a field
  that neither this record nor the table has: its priceMonthly is \<^verbatim>\<open>undefined\<close>. Status,
  images and amenities are as the claim says.
\<close>

theorem C1_hook_price_undefined:
  "field (convertDbPropertyToAppProperty scenario_raw) ''priceMonthly'' = JUndefined
   \<and> field (convertDbPropertyToAppProperty scenario_raw) ''priceMonthly'' \<noteq> JNum 800000
   \<and> field (convertDbPropertyToAppProperty scenario_raw) ''status'' = JStr ''available''
   \<and> field (convertDbPropertyToAppProperty scenario_raw) ''images''
       = JArr [JStr ''https://images.pexels.com/photos/106399/pexels-photo-106399.jpeg'']
   \<and> field (convertDbPropertyToAppProperty scenario_raw) ''amenities'' = JArr []"
  by (simp add: convertDbPropertyToAppProperty_def scenario_raw_def field_def js_or_def
      placeholder_def)

text \<open>What the placeholder substitution does, for every raw record and both converters:
  a falsy \<^verbatim>\<open>images\<close> (null, absent) becomes the placeholder list, a truthy one is kept
  as it is.\<close>

lemma images_missing_placeholder:
  "field r ''images'' \<in> {JNull, JUndefined} \<Longrightarrow>
     field (convertDbPropertyToAppProperty r) ''images'' = JArr [JStr placeholder]
   \<and> field (convertDbPropertyToAppProperty_HomePage r) ''images'' = JArr [JStr placeholder]"
  by (auto simp: field_hook_images field_HomePage_images js_or_def)

lemma images_array_kept:
  "field r ''images'' = JArr xs \<Longrightarrow>
     field (convertDbPropertyToAppProperty r) ''images'' = JArr xs
   \<and> field (convertDbPropertyToAppProperty_HomePage r) ''images'' = JArr xs"
  by (simp add: field_hook_images field_HomePage_images js_or_def)

lemma amenities_missing_empty:
  "field r ''amenities'' \<in> {JNull, JUndefined} \<Longrightarrow>
     field (convertDbPropertyToAppProperty r) ''amenities'' = JArr []
   \<and> field (convertDbPropertyToAppProperty_HomePage r) ''amenities'' = JArr []"
  by (auto simp: field_hook_amenities field_HomePage_amenities js_or_def)

text \<open>
  C6 (evaluation at the failing input). The claim says that every raw record, also one
  whose images field is an empty array, normalizes to a non-empty images sequence. The
  empty array is truthy, so \<^verbatim>\<open>dbProperty.images || [placeholder]\<close> keeps it: the record
  \<^verbatim>\<open>{images: []}\<close> normalizes to a Property whose images is the empty array, in both
  converters.
\<close>

theorem C6_empty_images_kept:
  "field (convertDbPropertyToAppProperty [(''images'', JArr [])]) ''images'' = JArr []
   \<and> field (convertDbPropertyToAppProperty_HomePage [(''images'', JArr [])]) ''images'' = JArr []"
proof -
  have "field [(''images'', JArr [])] ''images'' = JArr []"
    by (simp add: field_def)
  then show ?thesis
    by (simp add: field_hook_images field_HomePage_images js_or_def)
qed

section \<open>Filter Evaluator: results\<close>

text \<open>\<open>js_includes\<close> is substring containment.\<close>

lemma js_includes_sublist: "js_includes s t = sublist t s"
  by (induction s) (auto simp: sublist_Cons_right)

lemmas ok_defs = location_ok_def priceMin_ok_def priceMax_ok_def propertyType_ok_def
  bedrooms_ok_def bathrooms_ok_def

lemma step_location:
  "(case f_location f of
      Some l \<Rightarrow>
        if l \<noteq> [] then
          filter (\<lambda>p. js_includes (toLowerCase (city (location p))) (toLowerCase l)) xs
        else xs
    | None \<Rightarrow> xs) = filter (location_ok f) xs"
  by (simp add: location_ok_def[abs_def] split: option.splits)

lemma step_priceMin:
  "(case f_priceMin f of
      Some n \<Rightarrow> if n \<noteq> 0 then filter (\<lambda>p. priceMonthly p \<ge> n) xs else xs
    | None \<Rightarrow> xs) = filter (priceMin_ok f) xs"
  by (simp add: priceMin_ok_def[abs_def] split: option.splits)

lemma step_priceMax:
  "(case f_priceMax f of
      Some n \<Rightarrow> if n \<noteq> 0 then filter (\<lambda>p. priceMonthly p \<le> n) xs else xs
    | None \<Rightarrow> xs) = filter (priceMax_ok f) xs"
  by (simp add: priceMax_ok_def[abs_def] split: option.splits)

lemma step_propertyType:
  "(case f_propertyType f of
      Some t \<Rightarrow> if t \<noteq> [] then filter (\<lambda>p. propertyType p = t) xs else xs
    | None \<Rightarrow> xs) = filter (propertyType_ok f) xs"
  by (simp add: propertyType_ok_def[abs_def] split: option.splits)

lemma step_bedrooms:
  "(case f_bedrooms f of
      Some n \<Rightarrow> if n \<noteq> 0 then filter (\<lambda>p. bedrooms p \<ge> n) xs else xs
    | None \<Rightarrow> xs) = filter (bedrooms_ok f) xs"
  by (simp add: bedrooms_ok_def[abs_def] split: option.splits)

lemma step_bathrooms:
  "(case f_bathrooms f of
      Some n \<Rightarrow> if n \<noteq> 0 then filter (\<lambda>p. bathrooms p \<ge> n) xs else xs
    | None \<Rightarrow> xs) = filter (bathrooms_ok f) xs"
  by (simp add: bathrooms_ok_def[abs_def] split: option.splits)

text \<open>The six steps together keep the properties that pass all six tests.\<close>

lemma applyFilters_filter: "applyFilters P f = filter (fallback_matches f) P"
  unfolding applyFilters_def Let_def step_location step_priceMin step_priceMax
    step_propertyType step_bedrooms step_bathrooms
  by (auto simp: fallback_matches_def intro!: filter_cong)

lemma inter_filter:
  "filter (\<lambda>p. p \<in> set (filter B P)) (filter A P) = filter (\<lambda>p. A p \<and> B p) P"
  by (rule filter_cong[OF refl, THEN trans, of _ _ "\<lambda>p. B p \<and> A p"]) (auto intro!: filter_cong)

text \<open>
  C3. The filter set \<^verbatim>\<open>{location: "Dar", priceMax: 600000}\<close> on the sample dataset, which
  has 9 entries, returns its second and eighth entry in that order: the properties with
  ids "2" (Mikocheni, 550000) and "8" (Temeke, 180000). This is what the query function
  returns without a configured backend.
\<close>

theorem C3_dar_below_600000:
  "length (mockProperties now toISOString) = 9
   \<and> useProperties_queryFn False backend now toISOString
        (no_filters\<lparr>f_location := Some ''Dar'', f_priceMax := Some 600000\<rparr>)
       = Inr (FromMock [mockProperties now toISOString ! 1, mockProperties now toISOString ! 7])
   \<and> applyFilters (mockProperties now toISOString)
        (no_filters\<lparr>f_location := Some ''Dar'', f_priceMax := Some 600000\<rparr>)
       = [mockProperties now toISOString ! 1, mockProperties now toISOString ! 7]
   \<and> map (\<lambda>p. (id' p, district (location p), priceMonthly p))
        (applyFilters (mockProperties now toISOString)
          (no_filters\<lparr>f_location := Some ''Dar'', f_priceMax := Some 600000\<rparr>))
       = [(''2'', ''Mikocheni'', 550000), (''8'', ''Temeke'', 180000)]"
  by (simp add: useProperties_queryFn_def applyFilters_def mockProperties_def no_filters_def
      toLowerCase_def lower_char_def)

text \<open>
  C4. For every sequence of properties \<open>P\<close>, the empty filter object returns \<open>P\<close>
  unchanged; and an empty string as the location or the property type of any filter set
  \<open>f\<close> is the same as that criterion being unset, so alone it returns \<open>P\<close> unchanged
  too.
\<close>

theorem C4_empty_filters_identity:
  "applyFilters P no_filters = P
   \<and> applyFilters P (f\<lparr>f_location := Some []\<rparr>) = applyFilters P (f\<lparr>f_location := None\<rparr>)
   \<and> applyFilters P (f\<lparr>f_propertyType := Some []\<rparr>)
       = applyFilters P (f\<lparr>f_propertyType := None\<rparr>)
   \<and> applyFilters P (no_filters\<lparr>f_location := Some []\<rparr>) = P
   \<and> applyFilters P (no_filters\<lparr>f_propertyType := Some []\<rparr>) = P"
  by (simp add: applyFilters_def no_filters_def)

text \<open>
  C5. For every sequence \<open>P\<close> and all values \<open>a\<close>, \<open>b\<close>, filtering with
  \<^verbatim>\<open>{priceMin: a, bedrooms: b}\<close> gives the intersection of the results of
  \<^verbatim>\<open>{priceMin: a}\<close> and of \<^verbatim>\<open>{bedrooms: b}\<close>: as a list (the elements of the first result
  that occur in the second) and as a set. More generally the result for any filter set
  \<open>f\<close> consists of the elements of \<open>P\<close>, in order, that are in each of the six results
  for one criterion of \<open>f\<close> alone. The result for any \<open>f\<close> is a subsequence of \<open>P\<close>.
\<close>

theorem C5_and_semantics_subsequence:
  "applyFilters P (no_filters\<lparr>f_priceMin := Some a, f_bedrooms := Some b\<rparr>)
     = filter (\<lambda>p. p \<in> set (applyFilters P (no_filters\<lparr>f_bedrooms := Some b\<rparr>)))
         (applyFilters P (no_filters\<lparr>f_priceMin := Some a\<rparr>))
   \<and> set (applyFilters P (no_filters\<lparr>f_priceMin := Some a, f_bedrooms := Some b\<rparr>))
     = set (applyFilters P (no_filters\<lparr>f_priceMin := Some a\<rparr>))
       \<inter> set (applyFilters P (no_filters\<lparr>f_bedrooms := Some b\<rparr>))
   \<and> applyFilters P f
     = filter (\<lambda>p. p \<in> set (applyFilters P (no_filters\<lparr>f_location := f_location f\<rparr>))
                 \<and> p \<in> set (applyFilters P (no_filters\<lparr>f_priceMin := f_priceMin f\<rparr>))
                 \<and> p \<in> set (applyFilters P (no_filters\<lparr>f_priceMax := f_priceMax f\<rparr>))
                 \<and> p \<in> set (applyFilters P (no_filters\<lparr>f_propertyType := f_propertyType f\<rparr>))
                 \<and> p \<in> set (applyFilters P (no_filters\<lparr>f_bedrooms := f_bedrooms f\<rparr>))
                 \<and> p \<in> set (applyFilters P (no_filters\<lparr>f_bathrooms := f_bathrooms f\<rparr>))) P
   \<and> subseq (applyFilters P f) P"
proof (intro conjI)
  show "applyFilters P (no_filters\<lparr>f_priceMin := Some a, f_bedrooms := Some b\<rparr>)
     = filter (\<lambda>p. p \<in> set (applyFilters P (no_filters\<lparr>f_bedrooms := Some b\<rparr>)))
         (applyFilters P (no_filters\<lparr>f_priceMin := Some a\<rparr>))"
    unfolding applyFilters_filter inter_filter
    by (rule filter_cong) (auto simp: fallback_matches_def no_filters_def ok_defs)
  show "set (applyFilters P (no_filters\<lparr>f_priceMin := Some a, f_bedrooms := Some b\<rparr>))
     = set (applyFilters P (no_filters\<lparr>f_priceMin := Some a\<rparr>))
       \<inter> set (applyFilters P (no_filters\<lparr>f_bedrooms := Some b\<rparr>))"
    unfolding applyFilters_filter
    by (auto simp: fallback_matches_def no_filters_def ok_defs)
  show "applyFilters P f
     = filter (\<lambda>p. p \<in> set (applyFilters P (no_filters\<lparr>f_location := f_location f\<rparr>))
                 \<and> p \<in> set (applyFilters P (no_filters\<lparr>f_priceMin := f_priceMin f\<rparr>))
                 \<and> p \<in> set (applyFilters P (no_filters\<lparr>f_priceMax := f_priceMax f\<rparr>))
                 \<and> p \<in> set (applyFilters P (no_filters\<lparr>f_propertyType := f_propertyType f\<rparr>))
                 \<and> p \<in> set (applyFilters P (no_filters\<lparr>f_bedrooms := f_bedrooms f\<rparr>))
                 \<and> p \<in> set (applyFilters P (no_filters\<lparr>f_bathrooms := f_bathrooms f\<rparr>))) P"
    unfolding applyFilters_filter
    by (rule filter_cong) (simp_all add: fallback_matches_def no_filters_def ok_defs)
  show "subseq (applyFilters P f) P"
    unfolding applyFilters_filter by simp
qed

text \<open>
  C10. In the fallback branch the number 0 as a filter value is the same as no value:
  \<^verbatim>\<open>{priceMax: 0}\<close> returns every list unchanged, and so do \<^verbatim>\<open>{priceMin: 0}\<close>,
  \<^verbatim>\<open>{bedrooms: 0}\<close> and \<^verbatim>\<open>{bathrooms: 0}\<close>; within any filter set \<open>f\<close>, the value 0 for
  one of the four gives the same result as leaving it out.
\<close>

theorem C10_zero_is_unset:
  "applyFilters P (no_filters\<lparr>f_priceMax := Some 0\<rparr>) = P
   \<and> applyFilters P (no_filters\<lparr>f_priceMin := Some 0\<rparr>) = P
   \<and> applyFilters P (no_filters\<lparr>f_bedrooms := Some 0\<rparr>) = P
   \<and> applyFilters P (no_filters\<lparr>f_bathrooms := Some 0\<rparr>) = P
   \<and> applyFilters P (f\<lparr>f_priceMax := Some 0\<rparr>) = applyFilters P (f\<lparr>f_priceMax := None\<rparr>)
   \<and> applyFilters P (f\<lparr>f_priceMin := Some 0\<rparr>) = applyFilters P (f\<lparr>f_priceMin := None\<rparr>)
   \<and> applyFilters P (f\<lparr>f_bedrooms := Some 0\<rparr>) = applyFilters P (f\<lparr>f_bedrooms := None\<rparr>)
   \<and> applyFilters P (f\<lparr>f_bathrooms := Some 0\<rparr>) = applyFilters P (f\<lparr>f_bathrooms := None\<rparr>)"
  by (simp add: applyFilters_def no_filters_def)

text \<open>With a true upper bound of 0 nothing in the sample dataset would pass.\<close>

lemma sample_prices_positive:
  "filter (\<lambda>p. priceMonthly p \<le> 0) (mockProperties now toISOString) = []"
  by (simp add: mockProperties_def)

section \<open>The two data-source modes\<close>

text \<open>The conditions of the list query, one group for each step of \<open>getAll\<close>.\<close>

lemma conds_if_str:
  "q_conds (if_str x (\<lambda>c. add_cond (g c)) q)
     = q_conds q @ (case x of Some c \<Rightarrow> if c \<noteq> [] then [g c] else [] | None \<Rightarrow> [])"
  by (simp add: if_str_def add_cond_def split: option.splits)

lemma conds_if_num:
  "q_conds (if_num x (\<lambda>n. add_cond (g n)) q)
     = q_conds q @ (case x of Some n \<Rightarrow> if n \<noteq> 0 then [g n] else [] | None \<Rightarrow> [])"
  by (simp add: if_num_def add_cond_def split: option.splits)

lemma conds_if_num_limit:
  "q_conds (if_num x (\<lambda>n q. q\<lparr>q_limit := h n\<rparr>) q) = q_conds q"
  by (simp add: if_num_def split: option.splits)

lemma conds_if_num_range:
  "q_conds (if_num x (\<lambda>n q. q\<lparr>q_range := h n\<rparr>) q) = q_conds q"
  by (simp add: if_num_def split: option.splits)

lemma q_conds_getAll:
  "q_conds (getAll f) =
     [Eq ''is_available'' (JBool True)]
     @ (case f_city f of
          Some c \<Rightarrow> if c \<noteq> [] then [ILike ''city'' (''%'' @ c @ ''%'')] else []
        | None \<Rightarrow> [])
     @ (case f_priceMin f of
          Some n \<Rightarrow> if n \<noteq> 0 then [Gte ''monthly_rent'' n] else []
        | None \<Rightarrow> [])
     @ (case f_priceMax f of
          Some n \<Rightarrow> if n \<noteq> 0 then [Lte ''monthly_rent'' n] else []
        | None \<Rightarrow> [])
     @ (case f_propertyType f of
          Some t \<Rightarrow> if t \<noteq> [] then [Eq ''property_type'' (JStr t)] else []
        | None \<Rightarrow> [])
     @ (case f_bedrooms f of
          Some n \<Rightarrow> if n \<noteq> 0 then [Gte ''bedrooms'' n] else []
        | None \<Rightarrow> [])
     @ (case f_bathrooms f of
          Some n \<Rightarrow> if n \<noteq> 0 then [Gte ''bathrooms'' n] else []
        | None \<Rightarrow> [])
     @ (case f_search f of
          Some s \<Rightarrow>
            if s \<noteq> [] then
              [OrILike [(''title'', ''%'' @ s @ ''%''), (''description'', ''%'' @ s @ ''%''),
                        (''city'', ''%'' @ s @ ''%''), (''area'', ''%'' @ s @ ''%'')]]
            else []
        | None \<Rightarrow> [])"
  unfolding getAll_def Let_def
  by (simp only: conds_if_str conds_if_num conds_if_num_limit conds_if_num_range
      Query.simps append_assoc)

text \<open>
  C7 (counterexample). The claim says that a property passes the fallback filter exactly
  when it passes the remote list query for the same filter set. The remote query always
  starts with \<^verbatim>\<open>.eq('is_available', true)\<close>; the fallback branch has no such test. With
  the empty filter set, a rented listing passes the fallback filter, and the row that
  stores it fails the remote query.
\<close>

theorem C7_rented_counterexample:
  "row_stores rented_row rented_property
   \<and> fallback_matches no_filters rented_property
   \<and> applyFilters [rented_property] no_filters = [rented_property]
   \<and> \<not> remote_matches no_filters rented_row"
  by (simp add: row_stores_def rented_row_def rented_property_def field_def fallback_matches_def
      ok_defs no_filters_def applyFilters_def remote_matches_def getAll_def if_str_def if_num_def)

text \<open>
  C7 (amended). For an available property and the row that stores it, and a filter set
  whose location, city and search fields are unset or empty, the remote list query and the
  fallback filter agree: the price bounds, the property type and the bedroom and bathroom
  minimums are the same tests in both modes.
\<close>

theorem C7_numeric_and_type_criteria_agree:
  assumes stores: "row_stores row p" and avail: "status p = ''available''"
    and loc: "f_location f \<in> {None, Some []}" and cty: "f_city f \<in> {None, Some []}"
    and srch: "f_search f \<in> {None, Some []}"
  shows "remote_matches f row = fallback_matches f p"
proof -
  have base: "row_satisfies row (Eq ''is_available'' (JBool True))"
    using stores avail by (simp add: row_stores_def)
  have c1: "(case f_city f of
               Some c \<Rightarrow> if c \<noteq> [] then [ILike ''city'' (''%'' @ c @ ''%'')] else []
             | None \<Rightarrow> []) = []"
    using cty by auto
  have c7: "(case f_search f of
               Some s \<Rightarrow>
                 if s \<noteq> [] then
                   [OrILike [(''title'', ''%'' @ s @ ''%''), (''description'', ''%'' @ s @ ''%''),
                             (''city'', ''%'' @ s @ ''%''), (''area'', ''%'' @ s @ ''%'')]]
                 else []
             | None \<Rightarrow> []) = []"
    using srch by auto
  have l: "location_ok f p"
    using loc by (auto simp: location_ok_def)
  have c2: "list_all (row_satisfies row)
      (case f_priceMin f of
         Some n \<Rightarrow> if n \<noteq> 0 then [Gte ''monthly_rent'' n] else []
       | None \<Rightarrow> [])
      = priceMin_ok f p"
    using stores by (simp add: row_stores_def priceMin_ok_def split: option.splits)
  have c3: "list_all (row_satisfies row)
      (case f_priceMax f of
         Some n \<Rightarrow> if n \<noteq> 0 then [Lte ''monthly_rent'' n] else []
       | None \<Rightarrow> [])
      = priceMax_ok f p"
    using stores by (simp add: row_stores_def priceMax_ok_def split: option.splits)
  have c4: "list_all (row_satisfies row)
      (case f_propertyType f of
         Some t \<Rightarrow> if t \<noteq> [] then [Eq ''property_type'' (JStr t)] else []
       | None \<Rightarrow> [])
      = propertyType_ok f p"
    using stores by (auto simp: row_stores_def propertyType_ok_def split: option.splits)
  have c5: "list_all (row_satisfies row)
      (case f_bedrooms f of
         Some n \<Rightarrow> if n \<noteq> 0 then [Gte ''bedrooms'' n] else []
       | None \<Rightarrow> [])
      = bedrooms_ok f p"
    using stores by (simp add: row_stores_def bedrooms_ok_def split: option.splits)
  have c6: "list_all (row_satisfies row)
      (case f_bathrooms f of
         Some n \<Rightarrow> if n \<noteq> 0 then [Gte ''bathrooms'' n] else []
       | None \<Rightarrow> [])
      = bathrooms_ok f p"
    using stores by (simp add: row_stores_def bathrooms_ok_def split: option.splits)
  show ?thesis
    unfolding remote_matches_def q_conds_getAll fallback_matches_def c1 c7 list_all_append
      c2 c3 c4 c5 c6
    using base l by simp
qed

text \<open>
  C7 (witness). The available listing, its row and the filter set
  \<^verbatim>\<open>{priceMin: 500000, bedrooms: 2}\<close> meet every hypothesis; both modes accept the listing.
\<close>

theorem C7_numeric_and_type_criteria_agree_witness:
  "row_stores avail_row avail_property
   \<and> status avail_property = ''available''
   \<and> f_location two_filters \<in> {None, Some []}
   \<and> f_city two_filters \<in> {None, Some []}
   \<and> f_search two_filters \<in> {None, Some []}
   \<and> remote_matches two_filters avail_row = fallback_matches two_filters avail_property
   \<and> fallback_matches two_filters avail_property"
proof -
  have h1: "row_stores avail_row avail_property"
    by (simp add: row_stores_def avail_row_def avail_property_def rented_row_def
        rented_property_def field_def)
  have h2: "status avail_property = ''available''"
    by (simp add: avail_property_def)
  have h3: "f_location two_filters \<in> {None, Some []}"
    and h4: "f_city two_filters \<in> {None, Some []}"
    and h5: "f_search two_filters \<in> {None, Some []}"
    by (simp_all add: two_filters_def no_filters_def)
  have h6: "fallback_matches two_filters avail_property"
    by (simp add: fallback_matches_def ok_defs two_filters_def no_filters_def avail_property_def
        rented_property_def)
  show ?thesis
    using C7_numeric_and_type_criteria_agree [OF h1 h2 h3 h4 h5] h1 h2 h3 h4 h5 h6 by simp
qed

text \<open>
  The location criterion: \<open>getAll\<close> reads \<^verbatim>\<open>filters.city\<close> and never
  \<^verbatim>\<open>filters.location\<close>, the field the fallback branch reads. So the remote query is the
  same whatever the location of the filter set is, while the fallback filter with
  location "Dar" rejects a listing in Mwanza.
\<close>

lemma getAll_ignores_location: "getAll (f\<lparr>f_location := l\<rparr>) = getAll f"
  by (simp add: getAll_def)

lemma location_only_in_fallback:
  "\<not> fallback_matches (no_filters\<lparr>f_location := Some ''Dar''\<rparr>) avail_property
   \<and> remote_matches (no_filters\<lparr>f_location := Some ''Dar''\<rparr>) avail_row"
proof -
  have "remote_matches no_filters avail_row"
    by (simp add: remote_matches_def getAll_def no_filters_def if_str_def if_num_def
        avail_row_def field_def)
  moreover have "\<not> fallback_matches (no_filters\<lparr>f_location := Some ''Dar''\<rparr>) avail_property"
    by (simp add: fallback_matches_def ok_defs no_filters_def avail_property_def
        rented_property_def toLowerCase_def lower_char_def)
  ultimately show ?thesis
    by (simp add: remote_matches_def getAll_ignores_location)
qed

section \<open>Cache invalidation on mutations\<close>

lemmas key_defs = PROPERTY_KEYS_all_def PROPERTY_KEYS_lists_def PROPERTY_KEYS_list_def
  PROPERTY_KEYS_details_def PROPERTY_KEYS_detail_def PROPERTY_KEYS_byOwner_def

lemma needs_refetch_invalidate:
  "prefix q k \<Longrightarrow> needs_refetch (invalidateQueries q c) k"
  by (simp add: needs_refetch_def invalidateQueries_def split: option.splits)

lemma needs_refetch_mono:
  "needs_refetch c k \<Longrightarrow> needs_refetch (invalidateQueries q c) k"
  by (simp add: needs_refetch_def invalidateQueries_def split: option.splits)

text \<open>
  C8 (counterexample). The claim says that after a successful create the detail key of
  the new property's id is invalidated or overwritten. \<^verbatim>\<open>useCreateProperty\<close> invalidates
  the list keys and the owner's key only: a cache that holds "not found" under the detail
  key of the id still holds it, not invalidated, after the handler has run.
\<close>

theorem C8_create_keeps_detail_counterexample:
  "id' rented_property = ''44444444-4444-4444-4444-444444444444''
   \<and> useCreateProperty_onSuccess rented_property not_found_cache
        (PROPERTY_KEYS_detail (id' rented_property))
       = Some \<lparr>data = Some CNull, isInvalidated = False\<rparr>
   \<and> \<not> needs_refetch (useCreateProperty_onSuccess rented_property not_found_cache)
         (PROPERTY_KEYS_detail (id' rented_property))"
  by (simp add: useCreateProperty_onSuccess_def not_found_cache_def rented_property_def
      invalidateQueries_def needs_refetch_def key_defs)

text \<open>
  C8 (amended). For every cache \<open>c\<close>:
  after a successful update of \<open>p\<close>, the detail key of \<open>p\<close>'s id holds \<open>p\<close>, the
  authoritative response, as fresh, and every list key (every key that extends
  \<^verbatim>\<open>['properties', 'list']\<close>) and the key of \<open>p\<close>'s owner are read afresh;
  after a successful delete of \<open>i\<close>, the detail key of \<open>i\<close> is gone and every key of
  properties (lists, owners and details) is read afresh;
  after a successful create of \<open>p\<close>, every list key and the key of \<open>p\<close>'s owner are
  read afresh, and every detail key is as it was.
\<close>

theorem C8_invalidation_after_mutation:
  "useUpdateProperty_onSuccess p c (PROPERTY_KEYS_detail (id' p))
       = Some \<lparr>data = Some (CProperty p), isInvalidated = False\<rparr>
   \<and> needs_refetch (useUpdateProperty_onSuccess p c) (PROPERTY_KEYS_lists @ rest)
   \<and> needs_refetch (useUpdateProperty_onSuccess p c) (PROPERTY_KEYS_byOwner (ownerId p))
   \<and> useDeleteProperty_onSuccess i c (PROPERTY_KEYS_detail i) = None
   \<and> needs_refetch (useDeleteProperty_onSuccess i c) (PROPERTY_KEYS_all @ rest)
   \<and> needs_refetch (useCreateProperty_onSuccess p c) (PROPERTY_KEYS_lists @ rest)
   \<and> needs_refetch (useCreateProperty_onSuccess p c) (PROPERTY_KEYS_byOwner (ownerId p))
   \<and> useCreateProperty_onSuccess p c (PROPERTY_KEYS_detail j) = c (PROPERTY_KEYS_detail j)"
proof (intro conjI)
  show "useUpdateProperty_onSuccess p c (PROPERTY_KEYS_detail (id' p))
       = Some \<lparr>data = Some (CProperty p), isInvalidated = False\<rparr>"
    by (simp add: useUpdateProperty_onSuccess_def setQueryData_def invalidateQueries_def key_defs)
  show "needs_refetch (useUpdateProperty_onSuccess p c) (PROPERTY_KEYS_lists @ rest)"
    unfolding useUpdateProperty_onSuccess_def Let_def
    by (intro needs_refetch_mono needs_refetch_invalidate) simp
  show "needs_refetch (useUpdateProperty_onSuccess p c) (PROPERTY_KEYS_byOwner (ownerId p))"
    unfolding useUpdateProperty_onSuccess_def Let_def
    by (intro needs_refetch_invalidate) simp
  show "useDeleteProperty_onSuccess i c (PROPERTY_KEYS_detail i) = None"
    by (simp add: useDeleteProperty_onSuccess_def removeQueries_def invalidateQueries_def)
  show "needs_refetch (useDeleteProperty_onSuccess i c) (PROPERTY_KEYS_all @ rest)"
    unfolding useDeleteProperty_onSuccess_def Let_def
    by (intro needs_refetch_invalidate) simp
  show "needs_refetch (useCreateProperty_onSuccess p c) (PROPERTY_KEYS_lists @ rest)"
    unfolding useCreateProperty_onSuccess_def Let_def
    by (intro needs_refetch_mono needs_refetch_invalidate) simp
  show "needs_refetch (useCreateProperty_onSuccess p c) (PROPERTY_KEYS_byOwner (ownerId p))"
    unfolding useCreateProperty_onSuccess_def Let_def
    by (intro needs_refetch_invalidate) simp
  show "useCreateProperty_onSuccess p c (PROPERTY_KEYS_detail j) = c (PROPERTY_KEYS_detail j)"
    by (simp add: useCreateProperty_onSuccess_def invalidateQueries_def key_defs
        split: option.splits)
qed

section \<open>The view counter\<close>

text \<open>
  C2 (evaluation at the failing input). The claim says that the cache shows views = 1
  as soon as the increment is issued, whatever the backend does, and keeps the increment
  when the remote mutation fails. The hook updates the cache in \<^verbatim>\<open>onSuccess\<close>, under the
  comment "Optimistically update view count", so nothing changes when the increment is
  issued: for a property whose cached counter is 0 the cache still shows 0. With a
  configured backend \<^verbatim>\<open>mutationFn\<close> calls \<^verbatim>\<open>db.properties.incrementViews\<close>, a method
  that \<^verbatim>\<open>db.properties\<close> does not define: the mutation is rejected whatever the backend
  would answer, \<^verbatim>\<open>onSuccess\<close> never runs, and the cache shows 0 after the mutation has
  settled too. Only without a backend does \<^verbatim>\<open>mutationFn\<close> resolve, and the cache shows 1
  once it has.
\<close>

theorem C2_increment_not_optimistic:
  "cached_views (queries (mutate (id' p)
       \<lparr>queries = detail_only (p\<lparr>views := Some 0\<rparr>), mutation = Idle\<rparr>)) (id' p) = Some 0
   \<and> useIncrementViews_mutationFn True response_error = Rejected TypeError
   \<and> cached_views (queries (settle (useIncrementViews_mutationFn True response_error)
       (mutate (id' p)
         \<lparr>queries = detail_only (p\<lparr>views := Some 0\<rparr>), mutation = Idle\<rparr>))) (id' p) = Some 0
   \<and> useIncrementViews_mutationFn False response_error = Resolved
   \<and> cached_views (queries (settle (useIncrementViews_mutationFn False response_error)
       (mutate (id' p)
         \<lparr>queries = detail_only (p\<lparr>views := Some 0\<rparr>), mutation = Idle\<rparr>))) (id' p) = Some 1"
  by (simp add: cached_views_def mutate_def settle_def detail_only_def db_properties_def
      useIncrementViews_mutationFn_def useIncrementViews_onSuccess_def setQueryData_def
      incrementViews_updater_def)

section \<open>Retries\<close>

lemma attempts_3: "attempts e 3 = 4"
  by (subst attempts.simps) (simp add: retry_def)

lemma attempts_4xx: "400 \<le> st \<Longrightarrow> st < 500 \<Longrightarrow> attempts (Some st) 0 = 1"
  by (subst attempts.simps) (simp add: retry_def)

lemma attempts_other: "\<not> retry 0 e \<or> attempts e 0 = 4"
proof (cases "retry 0 e")
  case True
  then have r: "retry 1 e" "retry 2 e"
    by (auto simp: retry_def split: if_splits)
  have "attempts e 2 = 4"
    using r attempts_3 by (subst attempts.simps) simp
  then have "attempts e 1 = 4"
    using r by (subst attempts.simps) simp
  then have "attempts e 0 = 4"
    using True by (subst attempts.simps) simp
  then show ?thesis by simp
qed simp

text \<open>
  C9 (counterexample). The claim says that a failed remote request is never retried. The
  query client's \<^verbatim>\<open>retry\<close> option answers true for the first failure with status 500,
  and a backend that keeps failing with it is called four times.
\<close>

theorem C9_retry_500_counterexample: "retry 0 (Some 500) \<and> attempts (Some 500) 0 = 4"
  using attempts_other[of "Some 500"] by (simp add: retry_def)

text \<open>
  C9 (amended). A failed query whose error has a status from 400 to 499 is not retried:
  it is surfaced after the single failed attempt. After any other error (another status,
  or none) the query is retried while fewer than 3 failures came before, so a backend
  that keeps failing is called four times before the error is surfaced.
\<close>

theorem C9_retry_policy:
  "retry n (Some st) = (if 400 \<le> st \<and> st < 500 then False else n < 3)
   \<and> retry n None = (n < 3)
   \<and> attempts (Some st) 0 = (if 400 \<le> st \<and> st < 500 then 1 else 4)
   \<and> attempts None 0 = 4"
  using attempts_other[of "Some st"] attempts_other[of None] attempts_4xx[of st]
  by (auto simp: retry_def)

end
